theory Spec2Isabelle
  imports Main
begin

section \<open>Values, elements and exceptions\<close>

text \<open>
  Structured values as the converter sees them: the JSON-like values that \<open>json.loads\<close>,
  \<open>yaml.safe_load\<close> and the XML decoder produce. A Python \<open>dict\<close> keeps its keys in
  insertion order and the encoder walks it in that order, so a mapping is an association
  list; Python integers are unbounded, so an integer is an \<open>int\<close>. The only thing the
  package does with a float is to render it with \<open>str\<close>, and that text identifies the
  float, so a float is represented by the text \<open>str\<close> gives for it (\<open>1.5\<close>, \<open>1e+22\<close>,
  \<open>inf\<close>). Limits of the interpreter (recursion depth, the digit limit of integer to
  string conversion) are not modelled.
\<close>

datatype pyval =
    PNone
  | PBool bool
  | PInt int
  | PFloat string
  | PStr string
  | PList "pyval list"
  | PDict "(string \<times> pyval) list"

type_synonym pydict = "(string \<times> pyval) list"

text \<open>
  An \<open>xml.etree.ElementTree.Element\<close>: tag, attribute dictionary, optional direct text
  and the ordered children. The \<open>tail\<close> field is never read by the package.
\<close>

datatype element =
  Element (tag: string) (attrib: "(string \<times> string) list") (text': "string option")
          (children: "element list")

text \<open>
  Exceptions: the package's own \<open>DataConverterError\<close> with its message, and every
  exception class of a library (\<open>json.JSONDecodeError\<close>, \<open>yaml.YAMLError\<close>,
  \<open>xml.etree.ElementTree.ParseError\<close>, \<open>TypeError\<close>, ...) under its class name.
\<close>

datatype exn = DataConverterError string | ForeignError string

fun is_DataConverterError :: "exn \<Rightarrow> bool" where
  "is_DataConverterError (DataConverterError m) = True"
| "is_DataConverterError (ForeignError c) = False"

section \<open>Python primitives used by the codec\<close>

text \<open>
  \<open>str.isspace\<close> on the code points below 256: tab, line feed, vertical tab, form feed,
  carriage return, the four separators 28 to 31, space, NEL (133) and the no-break
  space (160).
\<close>

definition py_isspace :: "char \<Rightarrow> bool" where
  "py_isspace c = ((of_char c :: nat) \<in> {9, 10, 11, 12, 13, 28, 29, 30, 31, 32, 133, 160})"

definition strip :: "string \<Rightarrow> string" where
  "strip s = rev (dropWhile py_isspace (rev (dropWhile py_isspace s)))"

text \<open>\<open>d[k] = v\<close>: an existing key keeps its position, a new key goes to the end.\<close>

fun dict_set :: "(string \<times> 'v) list \<Rightarrow> string \<Rightarrow> 'v \<Rightarrow> (string \<times> 'v) list" where
  "dict_set [] k v = [(k, v)]"
| "dict_set ((k', v') # d) k v =
     (if k' = k then (k, v) # d else (k', v') # dict_set d k v)"

text \<open>\<open>d.update(e)\<close>: every entry of \<open>e\<close>, in order, is stored into \<open>d\<close>.\<close>

definition dict_update :: "(string \<times> 'v) list \<Rightarrow> (string \<times> 'v) list \<Rightarrow> (string \<times> 'v) list" where
  "dict_update d e = fold (\<lambda>(k, v) acc. dict_set acc k v) e d"

fun is_PList :: "pyval \<Rightarrow> bool" where
  "is_PList (PList xs) = True"
| "is_PList v = False"

section \<open>XML to mapping: \<open>_xml_to_dict_recursive\<close>\<close>

text \<open>
  The body of the inner loop (source lines 201 to 206): a key already in \<open>child_dict\<close>
  has its value turned into a list unless it is one already, and the new value is
  appended; a new key is stored as it is.
\<close>

definition fold_entry :: "string \<times> pyval \<Rightarrow> pydict \<Rightarrow> pydict" where
  "fold_entry kv child_dict =
     (case map_of child_dict (fst kv) of
        Some old \<Rightarrow>
          (case old of
             PList xs \<Rightarrow> dict_set child_dict (fst kv) (PList (xs @ [snd kv]))
           | _ \<Rightarrow> dict_set child_dict (fst kv) (PList [old, snd kv]))
      | None \<Rightarrow> dict_set child_dict (fst kv) (snd kv))"

text \<open>
  The two nested loops (lines 198 to 206) over the decoded children: for each child's
  mapping, for each of its entries.
\<close>

definition fold_children :: "pydict list \<Rightarrow> pydict" where
  "fold_children dcs = fold (\<lambda>dc child_dict. fold fold_entry dc child_dict) dcs []"

text \<open>
  Line 209: the stripped text when the text is there, non-empty, and non-empty once
  stripped; \<open>None\<close> otherwise.
\<close>

definition stripped_text :: "string option \<Rightarrow> string option" where
  "stripped_text t =
     (case t of
        None \<Rightarrow> None
      | Some s \<Rightarrow> (if s \<noteq> [] \<and> strip s \<noteq> [] then Some (strip s) else None))"

definition attrib_dict :: "(string \<times> string) list \<Rightarrow> pydict" where
  "attrib_dict as = fold (\<lambda>(k, v) d. dict_set d (''@'' @ k) (PStr v)) as []"

fun xml_to_dict_recursive :: "element \<Rightarrow> pydict" where
  "xml_to_dict_recursive (Element tg as tx cs) =
     (let data_dict = attrib_dict as;
          data_dict =
            (if cs \<noteq> [] then dict_update data_dict (fold_children (map xml_to_dict_recursive cs))
             else data_dict);
          t = stripped_text tx
      in if t \<noteq> None \<and> cs = [] then [(tg, PStr (the t))]
         else
           (let data_dict =
                  (if t \<noteq> None then dict_set data_dict ''#text'' (PStr (the t)) else data_dict)
            in if as \<noteq> [] \<or> cs \<noteq> [] then [(tg, PDict data_dict)] else data_dict))"

section \<open>Mapping to XML: \<open>_dict_to_xml_recursive\<close>\<close>

text \<open>
  \<open>str\<close> on the scalars: \<open>None\<close>, the booleans, integers in decimal, floats in the text
  that stands for them, strings as they are.
\<close>

definition digit_char :: "nat \<Rightarrow> char" where
  "digit_char d = char_of (48 + d)"

function str_nat :: "nat \<Rightarrow> string" where
  "str_nat n = (if n < 10 then [digit_char n] else str_nat (n div 10) @ [digit_char (n mod 10)])"
  by pat_completeness auto
termination
  by (relation "measure id") auto

declare str_nat.simps [simp del]

definition str_int :: "int \<Rightarrow> string" where
  "str_int i = (if i < 0 then CHR ''-'' # str_nat (nat (- i)) else str_nat (nat i))"

fun py_str :: "pyval \<Rightarrow> string" where
  "py_str PNone = ''None''"
| "py_str (PBool b) = (if b then ''True'' else ''False'')"
| "py_str (PInt i) = str_int i"
| "py_str (PFloat r) = r"
| "py_str (PStr s) = s"

text \<open>\<open>ET.Element(name)\<close>: a fresh element without attributes, text or children.\<close>

definition new_element :: "string \<Rightarrow> element" where
  "new_element name = Element name [] None []"

definition append_child :: "element \<Rightarrow> element \<Rightarrow> element" where
  "append_child parent child =
     Element (tag parent) (attrib parent) (text' parent) (children parent @ [child])"

definition set_text :: "element \<Rightarrow> string \<Rightarrow> element" where
  "set_text parent s = Element (tag parent) (attrib parent) (Some s) (children parent)"

text \<open>
  The source appends the fresh child to its parent and then fills it through the shared
  reference; here the child is filled first and appended in the same position. The
  function returns the parent as the source leaves it.
\<close>

fun dict_to_xml_recursive :: "pyval \<Rightarrow> element \<Rightarrow> element" where
  "dict_to_xml_recursive (PDict kvs) parent =
     fold (\<lambda>kv p. append_child p (dict_to_xml_recursive (snd kv) (new_element (fst kv)))) kvs parent"
| "dict_to_xml_recursive (PList items) parent =
     fold (\<lambda>item p. append_child p (dict_to_xml_recursive item (new_element ''item''))) items parent"
| "dict_to_xml_recursive data parent = set_text parent (py_str data)"

section \<open>The external collaborators\<close>

text \<open>
  The payload a converter is bound to: a structured value (a \<open>str\<close> is \<open>Val (PStr s)\<close>,
  a \<open>dict\<close> is \<open>Val (PDict d)\<close>), or a \<open>bytes\<close> or \<open>bytearray\<close> object, which the
  \<open>json\<close> branches accept.
\<close>

datatype payload = Val pyval | Bytes string | ByteArray string

text \<open>
  The libraries the package calls, taken as parameters. Each returns its own exception
  on failure. \<open>toprettyxml\<close> stands for
  \<open>parseString(ET.tostring(root)).toprettyxml()\<close>, \<open>fromstring\<close> for
  \<open>defusedxml.ElementTree.fromstring\<close>.
\<close>

record codecs =
  json_loads :: "payload \<Rightarrow> exn + pyval"
  json_dumps :: "payload \<Rightarrow> exn + string"
  yaml_safe_load :: "string \<Rightarrow> exn + pyval"
  yaml_dump :: "pyval \<Rightarrow> exn + string"
  fromstring :: "string \<Rightarrow> exn + element"
  toprettyxml :: "element \<Rightarrow> exn + string"

text \<open>An exception raised by an inner call leaves the enclosing call at once.\<close>

definition bind_result :: "exn + 'a \<Rightarrow> ('a \<Rightarrow> exn + 'b) \<Rightarrow> exn + 'b" where
  "bind_result r f = (case r of Inl e \<Rightarrow> Inl e | Inr x \<Rightarrow> f x)"

section \<open>The static entry points\<close>

definition dict_to_xml :: "codecs \<Rightarrow> pyval \<Rightarrow> string \<Rightarrow> exn + string" where
  "dict_to_xml cd data root_tag =
     toprettyxml cd (dict_to_xml_recursive data (new_element root_tag))"

definition xml_to_json :: "codecs \<Rightarrow> string \<Rightarrow> exn + string" where
  "xml_to_json cd xml_data =
     bind_result (fromstring cd xml_data)
       (\<lambda>root. json_dumps cd (Val (PDict (xml_to_dict_recursive root))))"

definition json_to_xml :: "codecs \<Rightarrow> pyval \<Rightarrow> string \<Rightarrow> exn + string" where
  "json_to_xml cd json_data root_tag = dict_to_xml cd json_data root_tag"

definition yaml_to_dict :: "codecs \<Rightarrow> string \<Rightarrow> exn + pyval" where
  "yaml_to_dict cd yaml_data = yaml_safe_load cd yaml_data"

section \<open>The converter\<close>

record converter =
  data :: payload
  data_type :: string

text \<open>The \<open>isinstance\<close> tests of the three methods.\<close>

fun as_str :: "payload \<Rightarrow> string option" where
  "as_str (Val (PStr s)) = Some s"
| "as_str p = None"

fun as_dict :: "payload \<Rightarrow> pydict option" where
  "as_dict (Val (PDict d)) = Some d"
| "as_dict p = None"

fun is_str_bytes_bytearray :: "payload \<Rightarrow> bool" where
  "is_str_bytes_bytearray (Val (PStr s)) = True"
| "is_str_bytes_bytearray (Bytes b) = True"
| "is_str_bytes_bytearray (ByteArray b) = True"
| "is_str_bytes_bytearray p = False"

definition DataConverter_init :: "payload \<Rightarrow> string \<Rightarrow> exn + converter" where
  "DataConverter_init d dt =
     (if dt \<notin> {''json'', ''xml'', ''dict'', ''yaml''}
      then Inl (DataConverterError ''Unsupported data type'')
      else Inr \<lparr>data = d, data_type = dt\<rparr>)"

text \<open>
  A method takes the converter and returns what the call returns or raises, together
  with the converter as the call leaves it.
\<close>

definition to_json :: "codecs \<Rightarrow> converter \<Rightarrow> (exn + string) \<times> converter" where
  "to_json cd self =
     (if data_type self = ''xml'' then
        (case as_str (data self) of
           Some s \<Rightarrow> (xml_to_json cd s, self)
         | None \<Rightarrow> (Inl (DataConverterError ''Invalid data type for XML conversion''), self))
      else if data_type self = ''yaml'' then
        (case as_str (data self) of
           Some s \<Rightarrow> (bind_result (yaml_to_dict cd s) (\<lambda>v. json_dumps cd (Val v)), self)
         | None \<Rightarrow> (Inl (DataConverterError ''Invalid data type for YAML conversion''), self))
      else if data_type self = ''dict'' then (json_dumps cd (data self), self)
      else (Inl (DataConverterError ''Unsupported data type for JSON conversion''), self))"

definition to_xml :: "codecs \<Rightarrow> converter \<Rightarrow> (exn + string) \<times> converter" where
  "to_xml cd self =
     (if data_type self = ''json'' then
        (if is_str_bytes_bytearray (data self)
         then (bind_result (json_loads cd (data self)) (\<lambda>v. json_to_xml cd v ''root''), self)
         else (Inl (DataConverterError ''Invalid data type for JSON conversion''), self))
      else if data_type self = ''dict'' then
        (case as_dict (data self) of
           Some d \<Rightarrow> (dict_to_xml cd (PDict d) ''root'', self)
         | None \<Rightarrow> (Inl (DataConverterError ''Invalid data type for dict conversion''), self))
      else if data_type self = ''yaml'' then
        (case as_str (data self) of
           Some s \<Rightarrow> (bind_result (yaml_to_dict cd s) (\<lambda>v. dict_to_xml cd v ''root''), self)
         | None \<Rightarrow> (Inl (DataConverterError ''Invalid data type for YAML conversion''), self))
      else (Inl (DataConverterError ''Unsupported data type for XML conversion''), self))"

definition to_yaml :: "codecs \<Rightarrow> converter \<Rightarrow> (exn + string) \<times> converter" where
  "to_yaml cd self =
     (if data_type self = ''json'' then
        (if is_str_bytes_bytearray (data self)
         then (bind_result (json_loads cd (data self)) (yaml_dump cd), self)
         else (Inl (DataConverterError ''Invalid data type for JSON conversion''), self))
      else if data_type self = ''dict'' then
        (case as_dict (data self) of
           Some d \<Rightarrow> (yaml_dump cd (PDict d), self)
         | None \<Rightarrow> (Inl (DataConverterError ''Invalid data type for dict conversion''), self))
      else if data_type self = ''xml'' then
        (case as_str (data self) of
           Some s \<Rightarrow>
             (bind_result (fromstring cd s) (\<lambda>root. yaml_dump cd (PDict (xml_to_dict_recursive root))),
              self)
         | None \<Rightarrow> (Inl (DataConverterError ''Invalid data type for XML conversion''), self))
      else (Inl (DataConverterError ''Unsupported data type for YAML conversion''), self))"

section \<open>Notions used to state the properties\<close>

text \<open>Text that is empty or consists of whitespace only.\<close>

definition blank :: "string \<Rightarrow> bool" where
  "blank s = list_all py_isspace s"

definition has_text :: "element \<Rightarrow> bool" where
  "has_text e = (case text' e of None \<Rightarrow> False | Some s \<Rightarrow> \<not> blank s)"

text \<open>An element with an attribute, a child, or text that is not blank.\<close>

definition contributes :: "element \<Rightarrow> bool" where
  "contributes e = (attrib e \<noteq> [] \<or> children e \<noteq> [] \<or> has_text e)"

text \<open>
  The value an element is decoded to, for an element whose mapping has an entry: the
  value of that entry.
\<close>

definition decoded_value :: "element \<Rightarrow> pyval" where
  "decoded_value e = snd (hd (xml_to_dict_recursive e))"

text \<open>The children of an element that carry a given tag and contribute an entry.\<close>

definition carrying :: "string \<Rightarrow> element \<Rightarrow> element list" where
  "carrying t e = filter (\<lambda>c. tag c = t \<and> contributes c) (children e)"

text \<open>The same tree with every blank text removed.\<close>

fun drop_blank_text :: "element \<Rightarrow> element" where
  "drop_blank_text (Element tg as tx cs) =
     Element tg as (case tx of None \<Rightarrow> None | Some s \<Rightarrow> if blank s then None else Some s)
       (map drop_blank_text cs)"

text \<open>The value with every number replaced by its decimal text.\<close>

fun stringified :: "pyval \<Rightarrow> pyval" where
  "stringified (PInt i) = PStr (str_int i)"
| "stringified (PFloat r) = PStr r"
| "stringified (PList xs) = PList (map stringified xs)"
| "stringified (PDict kvs) = PDict (map (\<lambda>kv. (fst kv, stringified (snd kv))) kvs)"
| "stringified v = v"

text \<open>
  The text \<open>str\<close> can give for a float: not empty, made of digits, the point, the
  exponent mark, the signs and the letters of \<open>inf\<close> and \<open>nan\<close>.
\<close>

definition float_repr :: "string \<Rightarrow> bool" where
  "float_repr r = (r \<noteq> [] \<and> list_all (\<lambda>c. c \<in> set ''0123456789.e+-infa'') r)"

text \<open>
  Element names that the serializer writes and the parser reads back as they are: a
  letter or underscore, then letters, digits, underscores, hyphens and points, all in
  ASCII. A colon makes the name a prefixed one and a letter outside ASCII is written as a
  character reference inside the tag; the parser rejects both.
\<close>

definition name_start_char :: "char \<Rightarrow> bool" where
  "name_start_char c =
     (let n = (of_char c :: nat) in (65 \<le> n \<and> n \<le> 90) \<or> (97 \<le> n \<and> n \<le> 122) \<or> n = 95)"

definition name_char :: "char \<Rightarrow> bool" where
  "name_char c =
     (let n = (of_char c :: nat) in name_start_char c \<or> (48 \<le> n \<and> n \<le> 57) \<or> n = 45 \<or> n = 46)"

definition xml_name :: "string \<Rightarrow> bool" where
  "xml_name k = (k \<noteq> [] \<and> name_start_char (hd k) \<and> list_all name_char (tl k))"

text \<open>
  Characters that element text carries unchanged: tab, line feed and everything from the
  space upwards. A carriage return is read back as a line feed, and the other control
  characters are rejected.
\<close>

definition xml_char :: "char \<Rightarrow> bool" where
  "xml_char c = (let n = (of_char c :: nat) in n = 9 \<or> n = 10 \<or> 32 \<le> n)"

text \<open>
  The values that come back as they are, numbers as their text: numbers, strings that
  are not empty, carry no whitespace at either end and consist of such characters, and
  non-empty mappings of such values under such names. The keys of a dictionary differ
  from each other.
\<close>

fun round_trip_safe :: "pyval \<Rightarrow> bool" where
  "round_trip_safe (PInt i) = True"
| "round_trip_safe (PFloat r) = float_repr r"
| "round_trip_safe (PStr s) = (s \<noteq> [] \<and> strip s = s \<and> list_all xml_char s)"
| "round_trip_safe (PDict kvs) =
     (kvs \<noteq> [] \<and> distinct (map fst kvs)
      \<and> list_all (\<lambda>kv. xml_name (fst kv) \<and> round_trip_safe (snd kv)) kvs)"
| "round_trip_safe v = False"

text \<open>At the top the mapping may also be empty.\<close>

definition round_trip_safe_mapping :: "pydict \<Rightarrow> bool" where
  "round_trip_safe_mapping m = (m = [] \<or> round_trip_safe (PDict m))"

definition raises_DataConverterError :: "exn + 'a \<Rightarrow> bool" where
  "raises_DataConverterError r = (case r of Inl e \<Rightarrow> is_DataConverterError e | Inr x \<Rightarrow> False)"

text \<open>
  What the folding rule makes of the values found under one tag, in document order: no
  entry for none, the value itself for one, the sequence of all of them for two or more.
\<close>

fun collected :: "pyval list \<Rightarrow> pyval option" where
  "collected [] = None"
| "collected [v] = Some v"
| "collected (v # w # vs) = Some (PList (v # w # vs))"

text \<open>The values stored under a key in a list of entries, in order.\<close>

definition values_under :: "string \<Rightarrow> pydict \<Rightarrow> pyval list" where
  "values_under t es = map snd (filter (\<lambda>kv. fst kv = t) es)"

text \<open>
  Encoding a mapping with \<open>dict_to_xml\<close> under the root tag \<open>root\<close>, parsing the text
  and decoding the parsed tree (lines 176 and 177 of \<open>xml_to_json\<close>).
\<close>

definition round_trip :: "codecs \<Rightarrow> pydict \<Rightarrow> exn + pydict" where
  "round_trip cd m =
     bind_result (dict_to_xml cd (PDict m) ''root'')
       (\<lambda>s. bind_result (fromstring cd s) (\<lambda>root. Inr (xml_to_dict_recursive root)))"

text \<open>
  The serializer and the parser are libraries. On a given tree they do their work when
  the serializer returns a text and the parser reads that text back as the same tree, up
  to blank text such as the indentation.
\<close>

definition xml_leg_exact :: "codecs \<Rightarrow> element \<Rightarrow> bool" where
  "xml_leg_exact cd t =
     (case toprettyxml cd t of
        Inl e \<Rightarrow> False
      | Inr s \<Rightarrow>
          (case fromstring cd s of
             Inl e \<Rightarrow> False
           | Inr root \<Rightarrow> drop_blank_text root = drop_blank_text t))"

section \<open>Sample behaviour of the libraries\<close>

text \<open>
  The libraries are not part of the package. For evaluating the converter on concrete
  inputs their observed behaviour is tabulated on a handful of inputs. Eight documents
  as \<open>ET.tostring\<close> and \<open>toprettyxml\<close> write them (declaration line, one element per
  line, tab indentation, a lone text child kept on the line of its element, an element
  with empty or no text written as an empty tag, a carriage return in text turned into a
  line feed) and as \<open>fromstring\<close> reads them back (the indentation becomes the text of
  the elements that have children). Three trees that \<open>parseString\<close> rejects with
  \<open>ExpatError\<close>. One malformed text for each parser. Outside the table nothing is said
  about the libraries.
\<close>

definition xml_declaration :: string where
  \<open>xml_declaration = ''<?xml version="1.0" ?>'' @ [CHR 0x0A]\<close>

definition line :: "nat \<Rightarrow> string \<Rightarrow> string" where
  "line depth s = replicate depth (CHR 0x09) @ s @ [CHR 0x0A]"

definition indent :: "nat \<Rightarrow> string" where
  "indent depth = CHR 0x0A # replicate depth (CHR 0x09)"

definition sample_documents :: "(element \<times> string \<times> element) list" where
  "sample_documents =
    [(Element ''root'' [] None [],
      xml_declaration @ line 0 ''<root/>'',
      Element ''root'' [] None []),
     (Element ''root'' [] None
        [Element ''person'' [] None
           [Element ''name'' [] (Some ''John'') [], Element ''age'' [] (Some ''30'') [],
            Element ''height'' [] (Some ''1.5'') []]],
      xml_declaration @ line 0 ''<root>'' @ line 1 ''<person>'' @ line 2 ''<name>John</name>''
        @ line 2 ''<age>30</age>'' @ line 2 ''<height>1.5</height>'' @ line 1 ''</person>''
        @ line 0 ''</root>'',
      Element ''root'' [] (Some (indent 1))
        [Element ''person'' [] (Some (indent 2))
           [Element ''name'' [] (Some ''John'') [], Element ''age'' [] (Some ''30'') [],
            Element ''height'' [] (Some ''1.5'') []]]),
     (Element ''root'' [] None [Element ''name'' [] (Some ''John'') []],
      xml_declaration @ line 0 ''<root>'' @ line 1 ''<name>John</name>'' @ line 0 ''</root>'',
      Element ''root'' [] (Some (indent 1)) [Element ''name'' [] (Some ''John'') []]),
     (Element ''root'' [] None
        [Element ''k'' [] None
           [Element ''item'' [] (Some ''x'') [], Element ''item'' [] (Some ''y'') []]],
      xml_declaration @ line 0 ''<root>'' @ line 1 ''<k>'' @ line 2 ''<item>x</item>''
        @ line 2 ''<item>y</item>'' @ line 1 ''</k>'' @ line 0 ''</root>'',
      Element ''root'' [] (Some (indent 1))
        [Element ''k'' [] (Some (indent 2))
           [Element ''item'' [] (Some ''x'') [], Element ''item'' [] (Some ''y'') []]]),
     (Element ''root'' [] None
        [Element ''a'' [] (Some []) [], Element ''b'' [] (Some ''x'') []],
      xml_declaration @ line 0 ''<root>'' @ line 1 ''<a/>'' @ line 1 ''<b>x</b>''
        @ line 0 ''</root>'',
      Element ''root'' [] (Some (indent 1))
        [Element ''a'' [] None [], Element ''b'' [] (Some ''x'') []]),
     (Element ''root'' [] None [Element ''a'' [] (Some '' x '') []],
      xml_declaration @ line 0 ''<root>'' @ line 1 ''<a> x </a>'' @ line 0 ''</root>'',
      Element ''root'' [] (Some (indent 1)) [Element ''a'' [] (Some '' x '') []]),
     (Element ''root'' [] None [Element ''a'' [] None []],
      xml_declaration @ line 0 ''<root>'' @ line 1 ''<a/>'' @ line 0 ''</root>'',
      Element ''root'' [] (Some (indent 1)) [Element ''a'' [] None []]),
     (Element ''root'' [] None [Element ''a'' [] (Some (''x'' @ [CHR 0x0D] @ ''y'')) []],
      xml_declaration @ line 0 ''<root>'' @ line 1 (''<a>x'' @ [CHR 0x0A] @ ''y</a>'')
        @ line 0 ''</root>'',
      Element ''root'' [] (Some (indent 1))
        [Element ''a'' [] (Some (''x'' @ [CHR 0x0A] @ ''y'')) []])]"

definition sample_rejected :: "element list" where
  "sample_rejected =
    [Element ''root'' [] None [Element ''a'' [] (Some (''x'' @ [CHR 0x01] @ ''y'')) []],
     Element ''root'' [] None [Element ''a:b'' [] (Some ''x'') []],
     Element ''root'' [] None [Element [CHR 0xE9] [] (Some ''x'') []]]"

definition sample_toprettyxml :: "element \<Rightarrow> exn + string" where
  "sample_toprettyxml root =
     (if root \<in> set sample_rejected then Inl (ForeignError ''xml.parsers.expat.ExpatError'')
      else case find (\<lambda>d. fst d = root) sample_documents of
             Some d \<Rightarrow> Inr (fst (snd d))
           | None \<Rightarrow> undefined)"

definition sample_fromstring :: "string \<Rightarrow> exn + element" where
  "sample_fromstring s =
     (if s = ''<a>'' then Inl (ForeignError ''xml.etree.ElementTree.ParseError'')
      else case find (\<lambda>d. fst (snd d) = s) sample_documents of
             Some d \<Rightarrow> Inr (snd (snd d))
           | None \<Rightarrow> undefined)"

definition sample_json_loads :: "payload \<Rightarrow> exn + pyval" where
  "sample_json_loads p =
     (if p = Val (PStr ''{'') then Inl (ForeignError ''json.JSONDecodeError'') else undefined)"

definition sample_json_dumps :: "payload \<Rightarrow> exn + string" where
  \<open>sample_json_dumps p =
     (if p = Val (PStr ''some data'') then Inr ''"some data"'' else undefined)\<close>

definition sample_yaml_safe_load :: "string \<Rightarrow> exn + pyval" where
  "sample_yaml_safe_load s =
     (if s = ''a: ['' then Inl (ForeignError ''yaml.parser.ParserError'') else undefined)"

definition sample_yaml_dump :: "pyval \<Rightarrow> exn + string" where
  "sample_yaml_dump v =
     (if v = PDict [(''a'', PStr ''b'')] then Inr (''a: b'' @ [CHR 0x0A]) else undefined)"

definition sample_codecs :: codecs where
  "sample_codecs =
     \<lparr>json_loads = sample_json_loads, json_dumps = sample_json_dumps,
      yaml_safe_load = sample_yaml_safe_load, yaml_dump = sample_yaml_dump,
      fromstring = sample_fromstring, toprettyxml = sample_toprettyxml\<rparr>"

definition sample_family :: element where
  "sample_family =
     Element ''r'' [(''id'', ''5'')] None
       [Element ''a'' [] (Some ''1'') [], Element ''a'' [] None [],
        Element ''a'' [] (Some '' 2 '') [], Element ''b'' [] (Some ''3'') []]"

section \<open>Lemmas on text and on what an element decodes to\<close>

lemma strip_Nil_iff: "strip s = [] \<longleftrightarrow> blank s"
proof
  assume h: "strip s = []"
  show "blank s"
  proof (rule ccontr)
    assume nb: "\<not> blank s"
    then have ne: "dropWhile py_isspace s \<noteq> []"
      by (simp add: blank_def list_all_iff dropWhile_eq_Nil_conv)
    from h have "dropWhile py_isspace (rev (dropWhile py_isspace s)) = []"
      by (simp add: strip_def)
    then have "\<forall>x \<in> set (dropWhile py_isspace s). py_isspace x"
      by (simp add: dropWhile_eq_Nil_conv)
    moreover have "hd (dropWhile py_isspace s) \<in> set (dropWhile py_isspace s)"
      using ne by simp
    moreover have "\<not> py_isspace (hd (dropWhile py_isspace s))"
      using ne by (rule hd_dropWhile)
    ultimately show False by blast
  qed
next
  assume "blank s"
  then have "\<forall>x \<in> set s. py_isspace x"
    by (simp add: blank_def list_all_iff)
  then have "dropWhile py_isspace s = []"
    by (rule dropWhile_eq_Nil_conv [THEN iffD2])
  then show "strip s = []" unfolding strip_def by (simp only: rev.simps dropWhile.simps)
qed

lemma blank_Nil: "blank []"
  by (simp add: blank_def)

lemma stripped_text_Some_eq:
  "stripped_text (Some s) = (if blank s then None else Some (strip s))"
  using strip_Nil_iff [of s] blank_Nil by (auto simp: stripped_text_def)

lemma stripped_text_None_eq: "stripped_text None = None"
  by (simp add: stripped_text_def)

lemma stripped_text_has_text:
  "stripped_text (text' e) \<noteq> None \<longleftrightarrow> has_text e"
  by (cases "text' e") (simp_all add: has_text_def stripped_text_None_eq stripped_text_Some_eq)

lemma decode_not_contributing:
  "\<not> contributes e \<Longrightarrow> xml_to_dict_recursive e = []"
proof (cases e)
  case (Element tg as tx cs)
  assume "\<not> contributes e"
  with Element have a: "as = []" "cs = []" "\<not> has_text e"
    by (simp_all add: contributes_def)
  from a(3) Element have "stripped_text tx = None"
    using stripped_text_has_text [of e] by simp
  with a Element show ?thesis by (simp add: attrib_dict_def)
qed

lemma decode_contributing:
  "contributes e \<Longrightarrow> \<exists>v. xml_to_dict_recursive e = [(tag e, v)] \<and> \<not> is_PList v"
proof (cases e)
  case (Element tg as tx cs)
  assume c: "contributes e"
  have t: "(stripped_text tx \<noteq> None) = has_text e"
    using stripped_text_has_text [of e] Element by simp
  show ?thesis
  proof (cases "stripped_text tx \<noteq> None \<and> cs = []")
    case True
    with Element show ?thesis by (simp add: Let_def)
  next
    case False
    with c t Element have "as \<noteq> [] \<or> cs \<noteq> []"
      by (auto simp: contributes_def)
    with False Element show ?thesis by (auto simp: Let_def)
  qed
qed

lemma decode_shape:
  "xml_to_dict_recursive e = (if contributes e then [(tag e, decoded_value e)] else [])"
  using decode_contributing [of e] decode_not_contributing [of e]
  by (auto simp: decoded_value_def)

lemma decoded_value_not_list: "contributes e \<Longrightarrow> \<not> is_PList (decoded_value e)"
  using decode_contributing [of e] by (auto simp: decoded_value_def)

section \<open>Lemmas on the merge of the children\<close>

lemma map_of_dict_set: "map_of (dict_set d k v) = (map_of d)(k \<mapsto> v)"
  by (induction d) (auto simp: fun_eq_iff)

lemma keys_dict_set:
  "map fst (dict_set d k v) = (if k \<in> set (map fst d) then map fst d else map fst d @ [k])"
  by (induction d) force+

lemma distinct_dict_set: "distinct (map fst d) \<Longrightarrow> distinct (map fst (dict_set d k v))"
  by (simp add: keys_dict_set)

lemma distinct_fold_entry: "distinct (map fst d) \<Longrightarrow> distinct (map fst (fold_entry kv d))"
  by (simp add: fold_entry_def distinct_dict_set split: option.split pyval.split)

lemma distinct_fold_entries:
  "distinct (map fst d) \<Longrightarrow> distinct (map fst (fold fold_entry es d))"
  by (induction es arbitrary: d) (simp_all add: distinct_fold_entry)

lemma fold_concat_acc: "fold f (concat xss) a = fold (fold f) xss a"
  by (induction xss arbitrary: a) simp_all

lemma fold_children_concat: "fold_children dcs = fold fold_entry (concat dcs) []"
  by (simp add: fold_children_def fold_concat_acc)

lemma distinct_fold_children: "distinct (map fst (fold_children dcs))"
  by (simp add: fold_children_concat distinct_fold_entries)

lemma collected_None: "collected vs = None \<longleftrightarrow> vs = []"
  by (cases vs rule: collected.cases) simp_all

lemma collected_snoc_single: "collected vs = Some old \<Longrightarrow> \<not> is_PList old \<Longrightarrow> vs = [old]"
  by (cases vs rule: collected.cases) auto

lemma collected_snoc_list:
  "collected vs = Some (PList xs) \<Longrightarrow> \<forall>v \<in> set vs. \<not> is_PList v \<Longrightarrow> xs = vs \<and> 2 \<le> length vs"
  by (cases vs rule: collected.cases) auto

lemma collected_append_two: "2 \<le> length vs \<Longrightarrow> collected (vs @ [v]) = Some (PList (vs @ [v]))"
  by (cases vs rule: collected.cases) auto

lemma fold_entry_other: "t \<noteq> fst kv \<Longrightarrow> map_of (fold_entry kv d) t = map_of d t"
  by (simp add: fold_entry_def map_of_dict_set split: option.split pyval.split)

lemma fold_entry_new: "map_of d (fst kv) = None \<Longrightarrow> map_of (fold_entry kv d) (fst kv) = Some (snd kv)"
  by (simp add: fold_entry_def map_of_dict_set)

lemma fold_entry_list:
  "map_of d (fst kv) = Some (PList xs) \<Longrightarrow>
   map_of (fold_entry kv d) (fst kv) = Some (PList (xs @ [snd kv]))"
  by (simp add: fold_entry_def map_of_dict_set)

lemma fold_entry_single:
  "map_of d (fst kv) = Some old \<Longrightarrow> \<not> is_PList old \<Longrightarrow>
   map_of (fold_entry kv d) (fst kv) = Some (PList [old, snd kv])"
  by (cases old) (simp_all add: fold_entry_def map_of_dict_set)

lemma fold_entries_collects:
  "\<forall>kv \<in> set es. \<not> is_PList (snd kv) \<Longrightarrow>
   map_of (fold fold_entry es []) t = collected (values_under t es)"
proof (induction es arbitrary: t rule: rev_induct)
  case Nil
  show ?case by (simp add: values_under_def)
next
  case (snoc e es)
  define acc where "acc = fold fold_entry es []"
  have ih: "\<And>t. map_of acc t = collected (values_under t es)"
    using snoc by (simp add: acc_def)
  have nl: "\<forall>v \<in> set (values_under (fst e) es). \<not> is_PList v"
    using snoc.prems by (auto simp: values_under_def)
  have step: "fold fold_entry (es @ [e]) [] = fold_entry e acc" by (simp add: acc_def)
  show ?case
  proof (cases "t = fst e")
    case False
    then have "map_of (fold_entry e acc) t = map_of acc t" by (rule fold_entry_other)
    with False ih step show ?thesis by (simp add: values_under_def)
  next
    case True
    have vu: "values_under t (es @ [e]) = values_under (fst e) es @ [snd e]"
      using True by (simp add: values_under_def)
    show ?thesis
    proof (cases "map_of acc (fst e)")
      case None
      then have "values_under (fst e) es = []" using ih collected_None by simp
      with fold_entry_new [OF None] True vu step show ?thesis by simp
    next
      case (Some old)
      then have c: "collected (values_under (fst e) es) = Some old" using ih by simp
      show ?thesis
      proof (cases "is_PList old")
        case isl: True
        then obtain xs where xs: "old = PList xs" by (cases old) simp_all
        with c nl have "xs = values_under (fst e) es \<and> 2 \<le> length (values_under (fst e) es)"
          using collected_snoc_list by blast
        with fold_entry_list [of acc e xs] Some xs True vu step show ?thesis
          by (simp add: collected_append_two)
      next
        case False
        with c have "values_under (fst e) es = [old]" by (rule collected_snoc_single)
        with fold_entry_single [OF Some False] True vu step show ?thesis by simp
      qed
    qed
  qed
qed

lemma entries_of_children:
  "concat (map xml_to_dict_recursive cs) = map (\<lambda>c. (tag c, decoded_value c)) (filter contributes cs)"
  by (induction cs) (simp_all add: decode_shape)

lemma values_under_children:
  "values_under t (concat (map xml_to_dict_recursive cs))
     = map decoded_value (filter (\<lambda>c. tag c = t \<and> contributes c) cs)"
  by (induction cs) (simp_all add: values_under_def decode_shape)

lemma child_dict_lookup:
  "map_of (fold_children (map xml_to_dict_recursive (children e))) t
     = collected (map decoded_value (carrying t e))"
proof -
  have "\<forall>kv \<in> set (concat (map xml_to_dict_recursive (children e))). \<not> is_PList (snd kv)"
    by (auto simp: entries_of_children decoded_value_not_list)
  then show ?thesis
    by (simp add: fold_children_concat fold_entries_collects values_under_children carrying_def)
qed

lemma collected_two: "2 \<le> length vs \<Longrightarrow> collected vs = Some (PList vs)"
  by (cases vs rule: collected.cases) simp_all

lemma collected_one: "length vs = 1 \<Longrightarrow> collected vs = Some (hd vs)"
  by (cases vs rule: collected.cases) simp_all

lemma map_of_fold_dict_set:
  "map_of (fold (\<lambda>kv acc. dict_set acc (fst kv) (snd kv)) b a) = map_of a ++ map_of (rev b)"
  by (induction b arbitrary: a) (simp_all add: map_of_dict_set)

lemma map_of_rev_distinct: "distinct (map fst xs) \<Longrightarrow> map_of (rev xs) = map_of xs"
  by (rule map_of_inject_set [THEN iffD2]) (simp_all add: distinct_rev rev_map [symmetric])

lemma dict_update_lookup:
  "distinct (map fst b) \<Longrightarrow> map_of (dict_update a b) = map_of a ++ map_of b"
proof -
  assume d: "distinct (map fst b)"
  show ?thesis
    by (simp add: dict_update_def case_prod_unfold map_of_fold_dict_set map_of_rev_distinct [OF d])
qed

lemma decode_with_children:
  assumes "children e \<noteq> []"
  shows "\<exists>d. xml_to_dict_recursive e = [(tag e, PDict d)] \<and>
           (\<forall>t. t \<noteq> ''#text'' \<longrightarrow>
              map_of d t =
                (case map_of (fold_children (map xml_to_dict_recursive (children e))) t of
                   None \<Rightarrow> map_of (attrib_dict (attrib e)) t
                 | Some v \<Rightarrow> Some v))"
proof (cases e)
  case (Element tg as tx cs)
  with assms have cs: "cs \<noteq> []" by simp
  define cd where "cd = fold_children (map xml_to_dict_recursive cs)"
  have dist: "distinct (map fst cd)" by (simp add: cd_def distinct_fold_children)
  have up: "\<And>t. map_of (dict_update (attrib_dict as) cd) t
              = (case map_of cd t of None \<Rightarrow> map_of (attrib_dict as) t | Some v \<Rightarrow> Some v)"
    by (simp add: dict_update_lookup [OF dist] map_add_def)
  show ?thesis
  proof (cases "stripped_text tx")
    case None
    with cs up show ?thesis unfolding Element by (simp add: cd_def [symmetric] split: option.split)
  next
    case (Some s)
    with cs up show ?thesis unfolding Element
      by (simp add: cd_def [symmetric] map_of_dict_set split: option.split)
  qed
qed

lemma collected_one_map: "length xs = 1 \<Longrightarrow> collected (map f xs) = Some (f (hd xs))"
  by (cases xs) simp_all

section \<open>Lemmas on blank text and on decoding what the encoder builds\<close>

lemma stripped_text_drop_blank:
  "stripped_text (case tx of None \<Rightarrow> None | Some s \<Rightarrow> if blank s then None else Some s)
     = stripped_text tx"
  by (cases tx) (simp_all add: stripped_text_None_eq stripped_text_Some_eq)

lemma decode_drop_blank_text: "xml_to_dict_recursive (drop_blank_text e) = xml_to_dict_recursive e"
proof (induction e)
  case (Element tg as tx cs)
  have m: "map xml_to_dict_recursive (map drop_blank_text cs) = map xml_to_dict_recursive cs"
    using Element by simp
  show ?case
    by (simp only: drop_blank_text.simps xml_to_dict_recursive.simps m stripped_text_drop_blank
          map_is_Nil_conv)
qed

lemma digit_not_space: "d < 10 \<Longrightarrow> \<not> py_isspace (digit_char d)"
  by (simp add: py_isspace_def digit_char_def)

lemma str_nat_no_space: "c \<in> set (str_nat n) \<Longrightarrow> \<not> py_isspace c"
proof (induction n arbitrary: c rule: str_nat.induct)
  case (1 n)
  show ?case
  proof (cases "n < 10")
    case True
    with "1.prems" have "c = digit_char n" by (subst (asm) str_nat.simps) simp
    with True show ?thesis by (simp add: digit_not_space)
  next
    case False
    with "1.prems" have "c \<in> set (str_nat (n div 10)) \<or> c = digit_char (n mod 10)"
      by (subst (asm) str_nat.simps) auto
    with False "1.IH" show ?thesis by (auto simp: digit_not_space)
  qed
qed

lemma str_nat_not_Nil: "str_nat n \<noteq> []"
  by (subst str_nat.simps) (simp del: str_nat.simps)

lemma minus_not_space: "\<not> py_isspace CHR ''-''"
  by (simp add: py_isspace_def)

lemma str_int_no_space: "c \<in> set (str_int i) \<Longrightarrow> \<not> py_isspace c"
  using minus_not_space by (auto simp: str_int_def dest: str_nat_no_space split: if_splits)

lemma str_int_not_Nil: "str_int i \<noteq> []"
  by (simp add: str_int_def str_nat_not_Nil)

lemma strip_no_space: "\<forall>c \<in> set s. \<not> py_isspace c \<Longrightarrow> strip s = s"
proof -
  assume a: "\<forall>c \<in> set s. \<not> py_isspace c"
  have d: "\<And>xs. \<forall>c \<in> set xs. \<not> py_isspace c \<Longrightarrow> dropWhile py_isspace xs = xs"
    by (case_tac xs) simp_all
  from a have "dropWhile py_isspace s = s" by (rule d)
  moreover from a have "dropWhile py_isspace (rev s) = rev s" by (intro d) simp
  ultimately show ?thesis by (simp add: strip_def)
qed

lemma stripped_text_kept: "s \<noteq> [] \<Longrightarrow> strip s = s \<Longrightarrow> stripped_text (Some s) = Some s"
  by (simp add: stripped_text_def)

lemma fold_append_child:
  "fold (\<lambda>x p. append_child p (f x)) xs p
     = Element (tag p) (attrib p) (text' p) (children p @ map f xs)"
  by (induction xs arbitrary: p) (simp_all add: append_child_def)

lemma dict_set_fresh: "k \<notin> fst ` set d \<Longrightarrow> dict_set d k v = d @ [(k, v)]"
  by (induction d) auto

lemma fold_entry_fresh: "fst kv \<notin> fst ` set d \<Longrightarrow> fold_entry kv d = d @ [kv]"
  by (simp add: fold_entry_def dict_set_fresh map_of_eq_None_iff [THEN iffD2])

lemma fold_entries_fresh:
  "distinct (map fst es) \<Longrightarrow> fst ` set es \<inter> fst ` set d = {} \<Longrightarrow> fold fold_entry es d = d @ es"
proof (induction es arbitrary: d)
  case Nil
  show ?case by simp
next
  case (Cons e es)
  from Cons.prems have f: "fst e \<notin> fst ` set d" by auto
  have "fst ` set es \<inter> fst ` set (d @ [e]) = {}"
    using Cons.prems by auto
  with Cons.IH [of "d @ [e]"] Cons.prems show ?case
    by (simp add: fold_entry_fresh [OF f])
qed

lemma dict_update_fresh:
  "distinct (map fst es) \<Longrightarrow> fst ` set es \<inter> fst ` set d = {} \<Longrightarrow> dict_update d es = d @ es"
  unfolding dict_update_def
proof (induction es arbitrary: d)
  case Nil
  show ?case by simp
next
  case (Cons e es)
  from Cons.prems have f: "fst e \<notin> fst ` set d" by auto
  have "fst ` set es \<inter> fst ` set (d @ [(fst e, snd e)]) = {}"
    using Cons.prems by auto
  with Cons.IH [of "d @ [(fst e, snd e)]"] Cons.prems show ?case
    by (simp add: case_prod_unfold dict_set_fresh [OF f])
qed

lemma float_char_not_space: "c \<in> set ''0123456789.e+-infa'' \<Longrightarrow> \<not> py_isspace c"
  by (auto simp: py_isspace_def)

lemma float_repr_kept: "float_repr r \<Longrightarrow> r \<noteq> [] \<and> strip r = r"
proof -
  assume f: "float_repr r"
  then have "\<forall>c \<in> set r. c \<in> set ''0123456789.e+-infa''"
    unfolding float_repr_def list_all_iff by (rule conjunct2)
  then have "\<forall>c \<in> set r. \<not> py_isspace c"
    using float_char_not_space by blast
  then have "strip r = r" by (rule strip_no_space)
  moreover from f have "r \<noteq> []" unfolding float_repr_def by (rule conjunct1)
  ultimately show ?thesis by simp
qed

lemma decode_encode_value:
  "round_trip_safe v \<Longrightarrow>
   xml_to_dict_recursive (dict_to_xml_recursive v (new_element k)) = [(k, stringified v)]"
proof (induction v arbitrary: k)
  case (PInt i)
  have "strip (str_int i) = str_int i" by (rule strip_no_space) (simp add: str_int_no_space)
  then show ?case
    by (simp add: new_element_def set_text_def stripped_text_kept str_int_not_Nil)
next
  case (PFloat r)
  then have "r \<noteq> [] \<and> strip r = r" by (simp add: float_repr_kept)
  then show ?case by (simp add: new_element_def set_text_def stripped_text_kept)
next
  case (PStr s)
  then show ?case by (simp add: new_element_def set_text_def stripped_text_kept)
next
  case (PDict kvs)
  let ?f = "\<lambda>kv. dict_to_xml_recursive (snd kv) (new_element (fst kv))"
  let ?g = "\<lambda>kv. (fst kv, stringified (snd kv))"
  from PDict.prems have ne: "kvs \<noteq> []" and dist: "distinct (map fst kvs)"
    and ok: "\<forall>kv \<in> set kvs. round_trip_safe (snd kv)"
    by (simp_all add: list_all_iff)
  have each: "\<forall>kv \<in> set kvs. xml_to_dict_recursive (?f kv) = [?g kv]"
  proof
    fix kv assume m: "kv \<in> set kvs"
    then have "round_trip_safe (snd kv)" using ok by simp
    moreover have "snd kv \<in> Basic_BNFs.snds kv" by (cases kv) simp
    ultimately show "xml_to_dict_recursive (?f kv) = [?g kv]"
      using PDict.IH [OF m] by simp
  qed
  then have mm: "map xml_to_dict_recursive (map ?f kvs) = map (\<lambda>kv. [?g kv]) kvs" by simp
  have cc: "concat (map xml_to_dict_recursive (map ?f kvs)) = map ?g kvs"
    by (simp only: mm concat_map_singleton)
  have dg: "distinct (map fst (map ?g kvs))" using dist by (simp add: comp_def)
  have fc: "fold_children (map xml_to_dict_recursive (map ?f kvs)) = map ?g kvs"
    using fold_entries_fresh [OF dg, of "[]"] by (simp only: fold_children_concat cc) simp
  have du: "dict_update [] (map ?g kvs) = map ?g kvs"
    using dict_update_fresh [OF dg, of "[]"] by simp
  have enc: "dict_to_xml_recursive (PDict kvs) (new_element k) = Element k [] None (map ?f kvs)"
    by (simp add: fold_append_child new_element_def)
  show ?case
    unfolding enc using ne
    by (simp add: fc du attrib_dict_def stripped_text_None_eq del: map_map)
qed simp_all

section \<open>Evaluation on the samples\<close>

lemmas sample_defs = sample_codecs_def sample_toprettyxml_def sample_fromstring_def
  sample_rejected_def
  sample_json_loads_def sample_json_dumps_def sample_yaml_safe_load_def sample_yaml_dump_def
  sample_documents_def xml_declaration_def line_def indent_def

lemmas codec_defs = round_trip_def dict_to_xml_def bind_result_def new_element_def
  append_child_def set_text_def

lemmas decode_defs = attrib_dict_def dict_update_def fold_children_def fold_entry_def
  stripped_text_def strip_def py_isspace_def

section \<open>The folding rule\<close>

text \<open>
  C1, as the code has it. Among the children of an element, those that carry a given tag
  and have an attribute, a child or non-blank text: two or more of them have their
  decoded values collected, in document order and with the first included, into one
  sequence under the tag; exactly one has its value stored as it is; none leaves no
  entry. The merged entry is the one found in the mapping the element decodes to (the
  key \<open>#text\<close> apart, which the element's own text takes). A child with no attribute, no
  child and no text decodes to the empty mapping and is passed over by the merge.
\<close>

theorem folding_rule:
  "(2 \<le> length (carrying t e) \<longrightarrow>
      map_of (fold_children (map xml_to_dict_recursive (children e))) t
        = Some (PList (map decoded_value (carrying t e))))
   \<and> (length (carrying t e) = 1 \<longrightarrow>
      map_of (fold_children (map xml_to_dict_recursive (children e))) t
        = Some (decoded_value (hd (carrying t e))))
   \<and> (carrying t e = [] \<longrightarrow>
      map_of (fold_children (map xml_to_dict_recursive (children e))) t = None)
   \<and> (carrying t e \<noteq> [] \<and> t \<noteq> ''#text'' \<longrightarrow>
      (\<exists>d. xml_to_dict_recursive e = [(tag e, PDict d)] \<and>
           map_of d t = map_of (fold_children (map xml_to_dict_recursive (children e))) t))"
proof -
  let ?cd = "fold_children (map xml_to_dict_recursive (children e))"
  have look: "map_of ?cd t = collected (map decoded_value (carrying t e))"
    by (rule child_dict_lookup)
  have last: "\<exists>d. xml_to_dict_recursive e = [(tag e, PDict d)] \<and> map_of d t = map_of ?cd t"
    if c: "carrying t e \<noteq> []" and t: "t \<noteq> ''#text''"
  proof -
    from c have ne: "children e \<noteq> []" by (auto simp: carrying_def)
    from c have "map_of ?cd t \<noteq> None" by (simp add: look collected_None)
    then obtain v where v: "map_of ?cd t = Some v" by blast
    from decode_with_children [OF ne] obtain d where
      d: "xml_to_dict_recursive e = [(tag e, PDict d)]"
      and l: "\<forall>t. t \<noteq> ''#text'' \<longrightarrow>
                map_of d t = (case map_of ?cd t of None \<Rightarrow> map_of (attrib_dict (attrib e)) t
                              | Some v \<Rightarrow> Some v)"
      by blast
    from l t v have "map_of d t = map_of ?cd t" by simp
    with d show ?thesis by blast
  qed
  show ?thesis
    using look last by (simp add: collected_two collected_one_map collected_None)
qed

text \<open>
  On \<open><r id="5"><a>1</a><a/><a> 2 </a><b>3</b></r>\<close>: the two \<open>a\<close> with text are
  collected, the empty \<open>a\<close> is passed over, the single \<open>b\<close> is stored directly.
\<close>

theorem folding_rule_witness:
  "2 \<le> length (carrying ''a'' sample_family)
   \<and> map_of (fold_children (map xml_to_dict_recursive (children sample_family))) ''a''
       = Some (PList [PStr ''1'', PStr ''2''])
   \<and> length (carrying ''b'' sample_family) = 1
   \<and> map_of (fold_children (map xml_to_dict_recursive (children sample_family))) ''b''
       = Some (PStr ''3'')
   \<and> carrying ''c'' sample_family = []
   \<and> map_of (fold_children (map xml_to_dict_recursive (children sample_family))) ''c'' = None
   \<and> xml_to_dict_recursive sample_family
       = [(''r'', PDict [(''@id'', PStr ''5''), (''a'', PList [PStr ''1'', PStr ''2'']),
                         (''b'', PStr ''3'')])]"
  using folding_rule [of "''a''" sample_family] folding_rule [of "''b''" sample_family]
        folding_rule [of "''c''" sample_family]
  by (simp add: sample_family_def carrying_def contributes_def has_text_def blank_def
        decoded_value_def decode_defs)

text \<open>
  In \<open><r><a/><a>x</a></r>\<close> two children share the tag \<open>a\<close>, and the value under
  \<open>a\<close> is the plain string, not a sequence of two values.
\<close>

theorem folding_rule_counterexample:
  "length (filter (\<lambda>c. tag c = ''a'')
       (children (Element ''r'' [] None
          [Element ''a'' [] None [], Element ''a'' [] (Some ''x'') []]))) = 2
   \<and> xml_to_dict_recursive
        (Element ''r'' [] None [Element ''a'' [] None [], Element ''a'' [] (Some ''x'') []])
       = [(''r'', PDict [(''a'', PStr ''x'')])]"
  by (simp add: decode_defs)

section \<open>What an element contributes\<close>

text \<open>
  C3, as the code has it. An element with an attribute, a child or non-blank text is
  decoded to a mapping with one entry, under the element's tag. An element with none of
  the three is decoded to the empty mapping: it has no entry at all, at the root and
  inside its parent.
\<close>

theorem element_contribution:
  "(contributes e \<longrightarrow> (\<exists>v. xml_to_dict_recursive e = [(tag e, v)]))
   \<and> (\<not> contributes e \<longrightarrow> xml_to_dict_recursive e = [])"
  using decode_contributing [of e] decode_not_contributing [of e] by blast

theorem element_contribution_witness:
  "contributes (Element ''p'' [(''id'', ''5'')] None [])
   \<and> (\<exists>v. xml_to_dict_recursive (Element ''p'' [(''id'', ''5'')] None []) = [(''p'', v)])
   \<and> \<not> contributes (Element ''p'' [] (Some ''  '') [])
   \<and> xml_to_dict_recursive (Element ''p'' [] (Some ''  '') []) = []"
  using element_contribution [of "Element ''p'' [(''id'', ''5'')] None []"]
        element_contribution [of "Element ''p'' [] (Some ''  '') []"]
  by (simp add: contributes_def has_text_def blank_def py_isspace_def)

text \<open>The element \<open><a/>\<close> is decoded to the empty mapping, not to \<open>a\<close> with an empty mapping.\<close>

theorem element_contribution_counterexample:
  "xml_to_dict_recursive (Element ''a'' [] None []) = []
   \<and> xml_to_dict_recursive (Element ''a'' [] None []) \<noteq> [(''a'', PDict [])]"
  by (simp add: decode_defs)

section \<open>Leaves and blank text\<close>

text \<open>
  C8. An element without attributes and children whose text is not empty once stripped
  is decoded to its tag with the stripped text. Text that is empty or all whitespace
  counts as no text: in one element, whatever its attributes and children, and in a whole
  tree.
\<close>

theorem leaf_text:
  "(strip s \<noteq> [] \<longrightarrow> xml_to_dict_recursive (Element tg [] (Some s) []) = [(tg, PStr (strip s))])
   \<and> (blank s \<longrightarrow>
        xml_to_dict_recursive (Element tg as (Some s) cs) = xml_to_dict_recursive (Element tg as None cs))
   \<and> xml_to_dict_recursive (drop_blank_text e) = xml_to_dict_recursive e"
proof -
  have a: "xml_to_dict_recursive (Element tg [] (Some s) []) = [(tg, PStr (strip s))]"
    if "strip s \<noteq> []"
    using that strip_Nil_iff [of s] by (simp add: stripped_text_Some_eq)
  have b: "xml_to_dict_recursive (Element tg as (Some s) cs) = xml_to_dict_recursive (Element tg as None cs)"
    if "blank s"
    using that by (simp add: stripped_text_Some_eq stripped_text_None_eq)
  show ?thesis using a b decode_drop_blank_text by blast
qed

theorem leaf_text_witness:
  "strip '' 30 '' \<noteq> []
   \<and> xml_to_dict_recursive (Element ''age'' [] (Some '' 30 '') []) = [(''age'', PStr ''30'')]
   \<and> blank ''  ''
   \<and> xml_to_dict_recursive (Element ''p'' [(''id'', ''5'')] (Some ''  '') [])
       = xml_to_dict_recursive (Element ''p'' [(''id'', ''5'')] None [])"
  using leaf_text [of "'' 30 ''" "''age''" "[]" "[]" "Element ''x'' [] None []"]
        leaf_text [of "''  ''" "''p''" "[(''id'', ''5'')]" "[]" "Element ''x'' [] None []"]
  by (simp add: strip_def py_isspace_def blank_def)

text \<open>
  C9. An element with attributes, non-blank text and no children is decoded to its tag
  with the stripped text, exactly as the same element without attributes: no attribute
  reaches the result.
\<close>

theorem attributes_dropped_beside_text:
  "as \<noteq> [] \<and> \<not> blank s \<longrightarrow>
     xml_to_dict_recursive (Element tg as (Some s) []) = [(tg, PStr (strip s))]
     \<and> xml_to_dict_recursive (Element tg as (Some s) [])
         = xml_to_dict_recursive (Element tg [] (Some s) [])"
  by (simp add: stripped_text_Some_eq)

theorem attributes_dropped_beside_text_witness:
  "[(''id'', ''5'')] \<noteq> [] \<and> \<not> blank '' x''
   \<and> xml_to_dict_recursive (Element ''r'' [(''id'', ''5'')] (Some '' x'') []) = [(''r'', PStr ''x'')]"
  using attributes_dropped_beside_text [of "[(''id'', ''5'')]" "'' x''" "''r''"]
  by (simp add: strip_def py_isspace_def blank_def)

section \<open>The round trip\<close>

text \<open>
  C2, as the code has it. Take a mapping whose keys are element names, whose leaves are
  numbers, or strings that are not empty, have no whitespace at either end and hold no
  control character other than tab and line feed, and whose other values are non-empty
  mappings of the same kind (no sequences). Where the serializer and the parser do their
  work on the tree the encoder builds, encoding and decoding gives the mapping with the
  single key \<open>root\<close>, holding the original with each number as its text, and gives the
  empty mapping for the empty mapping.
\<close>

theorem round_trip_under_root:
  assumes "round_trip_safe_mapping m"
      and "xml_leg_exact cd (dict_to_xml_recursive (PDict m) (new_element ''root''))"
  shows "round_trip cd m = Inr (if m = [] then [] else [(''root'', stringified (PDict m))])"
proof -
  let ?t = "dict_to_xml_recursive (PDict m) (new_element ''root'')"
  from assms(2) obtain s root where s: "toprettyxml cd ?t = Inr s"
    and r: "fromstring cd s = Inr root"
    and d: "drop_blank_text root = drop_blank_text ?t"
    by (auto simp: xml_leg_exact_def split: sum.splits)
  have "xml_to_dict_recursive root = xml_to_dict_recursive (drop_blank_text root)"
    by (simp only: decode_drop_blank_text)
  also have "\<dots> = xml_to_dict_recursive ?t"
    by (simp only: d decode_drop_blank_text)
  finally have dec: "xml_to_dict_recursive root = xml_to_dict_recursive ?t" .
  have val: "xml_to_dict_recursive ?t = (if m = [] then [] else [(''root'', stringified (PDict m))])"
  proof (cases "m = []")
    case True
    then show ?thesis
      by (simp add: new_element_def attrib_dict_def stripped_text_None_eq)
  next
    case False
    with assms(1) have "round_trip_safe (PDict m)" by (simp add: round_trip_safe_mapping_def)
    then have "xml_to_dict_recursive ?t = [(''root'', stringified (PDict m))]"
      by (rule decode_encode_value)
    with False show ?thesis by simp
  qed
  show ?thesis
    using s r by (simp add: round_trip_def dict_to_xml_def bind_result_def dec val
          del: dict_to_xml_recursive.simps)
qed

text \<open>
  The mapping \<open>{"person": {"name": "John", "age": 30, "height": 1.5}}\<close> and the empty
  mapping through the sample documents.
\<close>

theorem round_trip_under_root_witness:
  "round_trip sample_codecs
     [(''person'', PDict [(''name'', PStr ''John''), (''age'', PInt 30), (''height'', PFloat ''1.5'')])]
     = Inr [(''root'', PDict [(''person'',
              PDict [(''name'', PStr ''John''), (''age'', PStr ''30''), (''height'', PStr ''1.5'')])])]
   \<and> round_trip sample_codecs [] = Inr []"
proof -
  let ?m = "[(''person'',
              PDict [(''name'', PStr ''John''), (''age'', PInt 30), (''height'', PFloat ''1.5'')])]"
  have n: "str_int 30 = ''30''"
    by code_simp
  have t: "dict_to_xml_recursive (PDict ?m) (new_element ''root'')
             = Element ''root'' [] None
        [Element ''person'' [] None
           [Element ''name'' [] (Some ''John'') [], Element ''age'' [] (Some ''30'') [],
            Element ''height'' [] (Some ''1.5'') []]]"
    by (simp add: new_element_def append_child_def set_text_def n)
  have 1: "round_trip_safe_mapping ?m"
    by (simp add: round_trip_safe_mapping_def strip_def py_isspace_def xml_char_def xml_name_def
          name_start_char_def name_char_def float_repr_def)
  have 2: "xml_leg_exact sample_codecs (dict_to_xml_recursive (PDict ?m) (new_element ''root''))"
    unfolding t
    by (simp add: xml_leg_exact_def sample_defs blank_def py_isspace_def list_all_iff)
  have e1: "round_trip_safe_mapping []"
    by (simp add: round_trip_safe_mapping_def)
  have e2: "xml_leg_exact sample_codecs (dict_to_xml_recursive (PDict []) (new_element ''root''))"
    by (simp add: new_element_def xml_leg_exact_def sample_defs)
  show ?thesis
    using round_trip_under_root [OF 1 2] round_trip_under_root [OF e1 e2] by (simp add: n)
qed

text \<open>
  Where the round trip is not the identity. The result is wrapped under \<open>root\<close>. A
  sequence comes back as a mapping with the key \<open>item\<close>. A key with empty text is lost,
  and so is a key with an empty mapping. A string loses the whitespace at its ends, and a
  carriage return in it comes back as a line feed. A control character in a string, a
  colon in a key and a letter outside ASCII in a key make the serializer raise.
\<close>

theorem round_trip_counterexample:
  "round_trip sample_codecs [(''name'', PStr ''John'')]
     = Inr [(''root'', PDict [(''name'', PStr ''John'')])]
   \<and> round_trip sample_codecs [(''name'', PStr ''John'')] \<noteq> Inr [(''name'', PStr ''John'')]
   \<and> round_trip sample_codecs [(''k'', PList [PStr ''x'', PStr ''y''])]
     = Inr [(''root'', PDict [(''k'', PDict [(''item'', PList [PStr ''x'', PStr ''y''])])])]
   \<and> round_trip sample_codecs [(''a'', PStr []), (''b'', PStr ''x'')]
     = Inr [(''root'', PDict [(''b'', PStr ''x'')])]
   \<and> round_trip sample_codecs [(''a'', PDict [])] = Inr [(''root'', PDict [])]
   \<and> round_trip sample_codecs [(''a'', PStr '' x '')]
     = Inr [(''root'', PDict [(''a'', PStr ''x'')])]
   \<and> round_trip sample_codecs [(''a'', PStr (''x'' @ [CHR 0x0D] @ ''y''))]
     = Inr [(''root'', PDict [(''a'', PStr (''x'' @ [CHR 0x0A] @ ''y''))])]
   \<and> round_trip sample_codecs [(''a'', PStr (''x'' @ [CHR 0x01] @ ''y''))]
     = Inl (ForeignError ''xml.parsers.expat.ExpatError'')
   \<and> round_trip sample_codecs [(''a:b'', PStr ''x'')]
     = Inl (ForeignError ''xml.parsers.expat.ExpatError'')
   \<and> round_trip sample_codecs [([CHR 0xE9], PStr ''x'')]
     = Inl (ForeignError ''xml.parsers.expat.ExpatError'')"
  by (simp add: codec_defs sample_defs decode_defs)

section \<open>The converter\<close>

text \<open>
  C4. With the tag \<open>dict\<close> and a payload that is not a mapping, \<open>to_xml\<close> and
  \<open>to_yaml\<close> raise \<open>DataConverterError\<close>, and \<open>to_json\<close> does not: it hands the payload
  to \<open>json.dumps\<close> unchecked and returns what that returns, here the JSON string
  literal.
\<close>

theorem dict_to_json_unchecked:
  \<open>fst (to_json sample_codecs \<lparr>data = Val (PStr ''some data''), data_type = ''dict''\<rparr>)
     = Inr ''"some data"''
   \<and> fst (to_json cd \<lparr>data = Val (PStr ''some data''), data_type = ''dict''\<rparr>)
     = json_dumps cd (Val (PStr ''some data''))
   \<and> fst (to_xml cd \<lparr>data = Val (PStr ''some data''), data_type = ''dict''\<rparr>)
     = Inl (DataConverterError ''Invalid data type for dict conversion'')
   \<and> fst (to_yaml cd \<lparr>data = Val (PStr ''some data''), data_type = ''dict''\<rparr>)
     = Inl (DataConverterError ''Invalid data type for dict conversion'')\<close>
  by (simp add: to_json_def to_xml_def to_yaml_def sample_codecs_def sample_json_dumps_def)

text \<open>
  C5, as the code has it. The errors of the converter's own checks are
  \<open>DataConverterError\<close>: an unsupported tag at construction, a request for the format
  the payload is declared in, a payload that fails the \<open>isinstance\<close> test of the branch
  taken. An exception of the JSON, YAML or XML parser is not caught: the methods and the
  static entry points pass it on as it is.
\<close>

theorem facade_error_classes:
  "(dt \<notin> {''json'', ''xml'', ''dict'', ''yaml''} \<longrightarrow>
      raises_DataConverterError (DataConverter_init p dt))
   \<and> (data_type self = ''json'' \<longrightarrow> raises_DataConverterError (fst (to_json cd self)))
   \<and> (data_type self = ''xml'' \<longrightarrow> raises_DataConverterError (fst (to_xml cd self)))
   \<and> (data_type self = ''yaml'' \<longrightarrow> raises_DataConverterError (fst (to_yaml cd self)))
   \<and> (data_type self = ''xml'' \<and> as_str (data self) = None \<longrightarrow>
        raises_DataConverterError (fst (to_json cd self))
        \<and> raises_DataConverterError (fst (to_yaml cd self)))
   \<and> (data_type self = ''yaml'' \<and> as_str (data self) = None \<longrightarrow>
        raises_DataConverterError (fst (to_json cd self))
        \<and> raises_DataConverterError (fst (to_xml cd self)))
   \<and> (data_type self = ''json'' \<and> \<not> is_str_bytes_bytearray (data self) \<longrightarrow>
        raises_DataConverterError (fst (to_xml cd self))
        \<and> raises_DataConverterError (fst (to_yaml cd self)))
   \<and> (data_type self = ''dict'' \<and> as_dict (data self) = None \<longrightarrow>
        raises_DataConverterError (fst (to_xml cd self))
        \<and> raises_DataConverterError (fst (to_yaml cd self)))
   \<and> (data_type self = ''json'' \<and> is_str_bytes_bytearray (data self)
        \<and> json_loads cd (data self) = Inl e \<longrightarrow>
        fst (to_xml cd self) = Inl e \<and> fst (to_yaml cd self) = Inl e)
   \<and> (data_type self = ''yaml'' \<and> as_str (data self) = Some s \<and> yaml_safe_load cd s = Inl e \<longrightarrow>
        fst (to_json cd self) = Inl e \<and> fst (to_xml cd self) = Inl e)
   \<and> (data_type self = ''xml'' \<and> as_str (data self) = Some s \<and> fromstring cd s = Inl e \<longrightarrow>
        fst (to_json cd self) = Inl e \<and> fst (to_yaml cd self) = Inl e)
   \<and> (fromstring cd s = Inl e \<longrightarrow> xml_to_json cd s = Inl e)
   \<and> (yaml_safe_load cd s = Inl e \<longrightarrow> yaml_to_dict cd s = Inl e)"
  by (simp add: DataConverter_init_def to_json_def to_xml_def to_yaml_def xml_to_json_def
        yaml_to_dict_def raises_DataConverterError_def bind_result_def)

theorem facade_error_classes_witness:
  "''unsupported'' \<notin> {''json'', ''xml'', ''dict'', ''yaml''}
   \<and> raises_DataConverterError (DataConverter_init (Val (PStr ''some data'')) ''unsupported'')
   \<and> raises_DataConverterError
        (fst (to_json sample_codecs \<lparr>data = Val (PStr ''{''), data_type = ''json''\<rparr>))
   \<and> as_dict (Val (PStr ''some data'')) = None
   \<and> raises_DataConverterError
        (fst (to_xml sample_codecs \<lparr>data = Val (PStr ''some data''), data_type = ''dict''\<rparr>))
   \<and> as_str (Bytes ''<a/>'') = None
   \<and> raises_DataConverterError
        (fst (to_json sample_codecs \<lparr>data = Bytes ''<a/>'', data_type = ''xml''\<rparr>))
   \<and> json_loads sample_codecs (Val (PStr ''{'')) = Inl (ForeignError ''json.JSONDecodeError'')
   \<and> fst (to_yaml sample_codecs \<lparr>data = Val (PStr ''{''), data_type = ''json''\<rparr>)
       = Inl (ForeignError ''json.JSONDecodeError'')
   \<and> yaml_safe_load sample_codecs ''a: ['' = Inl (ForeignError ''yaml.parser.ParserError'')
   \<and> fst (to_json sample_codecs \<lparr>data = Val (PStr ''a: [''), data_type = ''yaml''\<rparr>)
       = Inl (ForeignError ''yaml.parser.ParserError'')
   \<and> fromstring sample_codecs ''<a>'' = Inl (ForeignError ''xml.etree.ElementTree.ParseError'')
   \<and> xml_to_json sample_codecs ''<a>'' = Inl (ForeignError ''xml.etree.ElementTree.ParseError'')"
  using
    facade_error_classes [where dt = "''unsupported''" and p = "Val (PStr ''some data'')"
      and self = "\<lparr>data = Val (PStr ''{''), data_type = ''json''\<rparr>" and cd = sample_codecs
      and e = "ForeignError ''json.JSONDecodeError''" and s = "''{''"]
    facade_error_classes [where dt = "''unsupported''" and p = "Val (PStr ''some data'')"
      and self = "\<lparr>data = Val (PStr ''some data''), data_type = ''dict''\<rparr>" and cd = sample_codecs
      and e = "ForeignError ''xml.etree.ElementTree.ParseError''" and s = "''<a>''"]
    facade_error_classes [where dt = "''unsupported''" and p = "Val (PStr ''some data'')"
      and self = "\<lparr>data = Bytes ''<a/>'', data_type = ''xml''\<rparr>" and cd = sample_codecs
      and e = "ForeignError ''xml.etree.ElementTree.ParseError''" and s = "''<a>''"]
    facade_error_classes [where dt = "''unsupported''" and p = "Val (PStr ''some data'')"
      and self = "\<lparr>data = Val (PStr ''a: [''), data_type = ''yaml''\<rparr>" and cd = sample_codecs
      and e = "ForeignError ''yaml.parser.ParserError''" and s = "''a: [''"]
  by (simp add: sample_codecs_def sample_json_loads_def sample_yaml_safe_load_def
        sample_fromstring_def)

text \<open>
  \<open>to_xml\<close> on the malformed JSON text \<open>{\<close> raises \<open>json.JSONDecodeError\<close>, which is
  not a \<open>DataConverterError\<close>.
\<close>

theorem facade_error_classes_counterexample:
  "fst (to_xml sample_codecs \<lparr>data = Val (PStr ''{''), data_type = ''json''\<rparr>)
     = Inl (ForeignError ''json.JSONDecodeError'')
   \<and> \<not> is_DataConverterError (ForeignError ''json.JSONDecodeError'')"
  by (simp add: to_xml_def bind_result_def sample_codecs_def sample_json_loads_def)

text \<open>
  C6. A converter declared \<open>json\<close> raises on \<open>to_json\<close>, one declared \<open>xml\<close> on
  \<open>to_xml\<close>, one declared \<open>yaml\<close> on \<open>to_yaml\<close>, whatever the payload and whatever the
  libraries would do.
\<close>

theorem same_format_raises:
  "fst (to_json cd \<lparr>data = p, data_type = ''json''\<rparr>)
     = Inl (DataConverterError ''Unsupported data type for JSON conversion'')
   \<and> fst (to_xml cd \<lparr>data = p, data_type = ''xml''\<rparr>)
     = Inl (DataConverterError ''Unsupported data type for XML conversion'')
   \<and> fst (to_yaml cd \<lparr>data = p, data_type = ''yaml''\<rparr>)
     = Inl (DataConverterError ''Unsupported data type for YAML conversion'')"
  by (simp add: to_json_def to_xml_def to_yaml_def)

text \<open>
  C7. Construction raises \<open>DataConverterError\<close> for every tag outside the four, whatever
  the payload, and succeeds for every payload with a tag among the four, binding payload
  and tag as given.
\<close>

theorem init_tag_check:
  "(dt \<notin> {''json'', ''xml'', ''dict'', ''yaml''} \<longrightarrow>
      DataConverter_init p dt = Inl (DataConverterError ''Unsupported data type''))
   \<and> (dt \<in> {''json'', ''xml'', ''dict'', ''yaml''} \<longrightarrow>
      DataConverter_init p dt = Inr \<lparr>data = p, data_type = dt\<rparr>)"
  by (simp add: DataConverter_init_def)

theorem init_tag_check_witness:
  "''unsupported'' \<notin> {''json'', ''xml'', ''dict'', ''yaml''}
   \<and> DataConverter_init (Val (PStr ''some data'')) ''unsupported''
       = Inl (DataConverterError ''Unsupported data type'')
   \<and> ''dict'' \<in> {''json'', ''xml'', ''dict'', ''yaml''}
   \<and> DataConverter_init (Bytes ''x'') ''dict'' = Inr \<lparr>data = Bytes ''x'', data_type = ''dict''\<rparr>"
  using init_tag_check [of "''unsupported''" "Val (PStr ''some data'')"]
        init_tag_check [of "''dict''" "Bytes ''x''"]
  by simp

text \<open>
  C10. Each of the three methods leaves the converter as it found it, whether it returns
  or raises, so a second call after any first call gives what it would have given alone.
\<close>

theorem methods_leave_converter_unchanged:
  "snd (to_json cd self) = self \<and> snd (to_xml cd self) = self \<and> snd (to_yaml cd self) = self
   \<and> to_json cd (snd (to_xml cd self)) = to_json cd self
   \<and> to_xml cd (snd (to_yaml cd self)) = to_xml cd self
   \<and> to_yaml cd (snd (to_json cd self)) = to_yaml cd self"
proof -
  have j: "snd (to_json cd self) = self"
    by (simp add: to_json_def split: option.split)
  have x: "snd (to_xml cd self) = self"
    by (simp add: to_xml_def split: option.split)
  have y: "snd (to_yaml cd self) = self"
    by (simp add: to_yaml_def split: option.split)
  show ?thesis by (simp only: j x y)
qed

end
